theory Spec2Isabelle
  imports Main
begin

section \<open>Data model of the \<open>useTodos\<close> hook\<close>

text \<open>
  The interface \<^verbatim>\<open>Todo\<close>: \<^verbatim>\<open>id: number\<close>, \<^verbatim>\<open>title: string\<close>,
  \<^verbatim>\<open>description?: string\<close>, \<^verbatim>\<open>completed: boolean\<close>, \<^verbatim>\<open>isSynced?: boolean\<close>.
  Identifiers are integers (the screen passes \<^verbatim>\<open>Date.now()\<close>, the server small
  positive integers). The field \<^verbatim>\<open>id\<close> is named \<open>id'\<close> here, since \<open>id\<close> is the
  identity function of HOL.

  An object of this type in memory, as a caller of the hook may build it, has each
  optional property in one of three states: the key is absent, the key is there with
  the value \<^verbatim>\<open>undefined\<close> (\<^verbatim>\<open>{id: 2, title: 'B', description: undefined, ...}\<close>), or
  the key is there with a value. Object spread copies a key of the second kind like any
  other; \<^verbatim>\<open>JSON.stringify\<close> leaves it out.
\<close>

datatype 'a optional = Absent | Undefined | Value 'a

record TodoObject =
  id' :: int
  title :: string
  description :: "string optional"
  completed :: bool
  isSynced :: "bool optional"

text \<open>
  A \<^verbatim>\<open>Todo\<close> that came out of \<^verbatim>\<open>JSON.parse\<close> (read from AsyncStorage, or the body
  of the server's response): no key holds \<^verbatim>\<open>undefined\<close>, so an optional property is
  absent (\<open>None\<close>) or has a value. The unqualified field names are those of this record;
  the fields of an object in memory are written \<open>TodoObject.title\<close> and so on.
\<close>

record Todo =
  id' :: int
  title :: string
  description :: "string option"
  completed :: bool
  isSynced :: "bool option"

text \<open>A parsed task as an object in memory, as it is when it is spread.\<close>

definition asObject :: "Todo \<Rightarrow> TodoObject" where
  "asObject todo =
     \<lparr>TodoObject.id' = id' todo,
      TodoObject.title = title todo,
      TodoObject.description = (case description todo of None \<Rightarrow> Absent | Some d \<Rightarrow> Value d),
      TodoObject.completed = completed todo,
      TodoObject.isSynced = (case isSynced todo of None \<Rightarrow> Absent | Some b \<Rightarrow> Value b)\<rparr>"

text \<open>
  What \<^verbatim>\<open>JSON.parse\<close> reads back from the \<^verbatim>\<open>JSON.stringify\<close> of an object: a key
  holding \<^verbatim>\<open>undefined\<close> is not written.
\<close>

definition stringified :: "TodoObject \<Rightarrow> Todo" where
  "stringified obj =
     \<lparr>id' = TodoObject.id' obj,
      title = TodoObject.title obj,
      description = (case TodoObject.description obj of Value d \<Rightarrow> Some d | _ \<Rightarrow> None),
      completed = TodoObject.completed obj,
      isSynced = (case TodoObject.isSynced obj of Value b \<Rightarrow> Some b | _ \<Rightarrow> None)\<rparr>"

text \<open>
  The two keys of AsyncStorage the hook uses, \<^verbatim>\<open>'todos'\<close> and \<^verbatim>\<open>'deletedTaskIds'\<close>.
  \<^verbatim>\<open>getItem\<close> gives \<^verbatim>\<open>null\<close> for a key never written: \<open>None\<close>. A key that was
  written holds the \<^verbatim>\<open>JSON.stringify\<close> of a list, and \<^verbatim>\<open>JSON.parse\<close> gives that list
  back, so the store holds the list itself.
\<close>

record storage =
  todos :: "Todo list option"
  deletedTaskIds :: "int list option"

definition emptyStorage :: storage where
  "emptyStorage = \<lparr>todos = None, deletedTaskIds = None\<rparr>"

text \<open>\<^verbatim>\<open>localTodos ? JSON.parse(localTodos) : []\<close>, and the same for the deleted ids.\<close>

definition parsedTodos :: "storage \<Rightarrow> Todo list" where
  "parsedTodos s = (case todos s of None \<Rightarrow> [] | Some ts \<Rightarrow> ts)"

definition parsedDeletedTaskIds :: "storage \<Rightarrow> int list" where
  "parsedDeletedTaskIds s = (case deletedTaskIds s of None \<Rightarrow> [] | Some ds \<Rightarrow> ds)"

text \<open>
  The ways \<^verbatim>\<open>fetchTodos\<close> can be rejected: \<^verbatim>\<open>await fetch(API_URL)\<close> rejects (no
  network route, DNS failure, ...) or \<^verbatim>\<open>await response.json()\<close> rejects (the body is
  not JSON). The hook has no \<^verbatim>\<open>try\<close>/\<^verbatim>\<open>catch\<close>, so either rejection is the result of
  the whole call.
\<close>

datatype error = FetchRejected | JsonRejected

section \<open>Operations\<close>

text \<open>
  \<^verbatim>\<open>fetchTodos\<close> (the spec's loadAndReconcile). Its inputs besides the store are what
  the two awaited calls give: \<open>isConnected\<close> is \<^verbatim>\<open>netInfo.isConnected\<close>
  (\<^verbatim>\<open>boolean | null\<close>, tested for truthiness), \<open>response\<close> is the outcome of
  \<^verbatim>\<open>fetch\<close> followed by \<^verbatim>\<open>response.json()\<close>, looked at only when connected. The
  result is the value the promise settles with and the store afterwards.
\<close>

definition fetchTodos ::
  "storage \<Rightarrow> bool option \<Rightarrow> error + Todo list \<Rightarrow> (error + Todo list) \<times> storage" where
  "fetchTodos s isConnected response =
     (let localTodos = parsedTodos s;
          deletedIds = parsedDeletedTaskIds s
      in if isConnected = Some True then
           (case response of
              Inl e \<Rightarrow> (Inl e, s)
            | Inr serverTodos \<Rightarrow>
                let serverTodosWithSync =
                      filter (\<lambda>todo. \<not> (id' todo \<in> set deletedIds))
                        (map (\<lambda>todo. todo\<lparr>isSynced := Some True\<rparr>) serverTodos);
                    filteredServerTodos =
                      filter (\<lambda>serverTodo.
                                \<not> list_ex (\<lambda>localTodo. id' localTodo = id' serverTodo) localTodos)
                        serverTodosWithSync;
                    mergedTodos = localTodos @ filteredServerTodos
                in (Inr mergedTodos, s\<lparr>todos := Some mergedTodos\<rparr>))
         else (Inr localTodos, s))"

text \<open>
  \<^verbatim>\<open>addTodo\<close>: \<^verbatim>\<open>[{...newTodo, isSynced: false}, ...parsedTodos]\<close> is written to
  \<^verbatim>\<open>'todos'\<close>. (\<^verbatim>\<open>queryClient.invalidateQueries\<close>, the refresh signal to the
  presentation layer, touches no storage and is left out of every mutation.) The new
  task is spread into an empty object and written, so a key of it holding
  \<^verbatim>\<open>undefined\<close> is stored like an absent one: the argument is given as it is stored.
\<close>

definition addTodo :: "storage \<Rightarrow> Todo \<Rightarrow> storage" where
  "addTodo s newTodo =
     (let updatedTodos = newTodo\<lparr>isSynced := Some False\<rparr> # parsedTodos s
      in s\<lparr>todos := Some updatedTodos\<rparr>)"

text \<open>
  The object spread \<^verbatim>\<open>{...todo, ...updatedTodo}\<close>, \<open>todo\<close> a stored task: every
  key that \<open>updatedTodo\<close> has wins, also one holding \<^verbatim>\<open>undefined\<close>; for a key that
  \<open>updatedTodo\<close> does not have, the one of \<open>todo\<close> stays.
\<close>

definition spread :: "Todo \<Rightarrow> TodoObject \<Rightarrow> TodoObject" where
  "spread todo updatedTodo =
     \<lparr>TodoObject.id' = TodoObject.id' updatedTodo,
      TodoObject.title = TodoObject.title updatedTodo,
      TodoObject.description =
        (case TodoObject.description updatedTodo of
           Absent \<Rightarrow> TodoObject.description (asObject todo)
         | Undefined \<Rightarrow> Undefined
         | Value d \<Rightarrow> Value d),
      TodoObject.completed = TodoObject.completed updatedTodo,
      TodoObject.isSynced =
        (case TodoObject.isSynced updatedTodo of
           Absent \<Rightarrow> TodoObject.isSynced (asObject todo)
         | Undefined \<Rightarrow> Undefined
         | Value b \<Rightarrow> Value b)\<rparr>"

text \<open>
  \<^verbatim>\<open>updateTodo\<close>: the \<^verbatim>\<open>map\<close> over the stored list, written back to \<^verbatim>\<open>'todos'\<close>
  through \<^verbatim>\<open>JSON.stringify\<close>. An entry of another id is the parsed object it was,
  which is written as it was read.
\<close>

definition updateTodo :: "storage \<Rightarrow> TodoObject \<Rightarrow> storage" where
  "updateTodo s updatedTodo =
     (let updatedTodos =
            map (\<lambda>todo. if id' todo = TodoObject.id' updatedTodo
                        then stringified
                               ((spread todo updatedTodo)\<lparr>TodoObject.isSynced := Value False\<rparr>)
                        else todo)
              (parsedTodos s)
      in s\<lparr>todos := Some updatedTodos\<rparr>)"

text \<open>
  \<^verbatim>\<open>deleteTodo\<close>: the filtered list is written to \<^verbatim>\<open>'todos'\<close>, then
  \<^verbatim>\<open>[...parsedDeletedTaskIds, id]\<close> to \<^verbatim>\<open>'deletedTaskIds'\<close>.
\<close>

definition deleteTodo :: "storage \<Rightarrow> int \<Rightarrow> storage" where
  "deleteTodo s i =
     (let updatedTodos = filter (\<lambda>todo. id' todo \<noteq> i) (parsedTodos s);
          s1 = s\<lparr>todos := Some updatedTodos\<rparr>;
          updatedDeletedTaskIds = parsedDeletedTaskIds s1 @ [i]
      in s1\<lparr>deletedTaskIds := Some updatedDeletedTaskIds\<rparr>)"

text \<open>\<^verbatim>\<open>toggleComplete\<close>: \<^verbatim>\<open>updateTodo.mutate({...todo, completed: !todo.completed})\<close>.\<close>

definition toggleComplete :: "storage \<Rightarrow> TodoObject \<Rightarrow> storage" where
  "toggleComplete s todo =
     updateTodo s (todo\<lparr>TodoObject.completed := \<not> TodoObject.completed todo\<rparr>)"

section \<open>Sequences of operations\<close>

text \<open>
  One call of the hook's interface, with what the environment answers during a
  \<^verbatim>\<open>fetchTodos\<close>. \<open>exec\<close> gives the store after the call; a rejected
  \<^verbatim>\<open>fetchTodos\<close> has written nothing.
\<close>

datatype call =
    AddTodo Todo
  | UpdateTodo TodoObject
  | DeleteTodo int
  | ToggleComplete TodoObject
  | FetchTodos "bool option" "error + Todo list"

fun exec :: "storage \<Rightarrow> call \<Rightarrow> storage" where
  "exec s (AddTodo t) = addTodo s t"
| "exec s (UpdateTodo t) = updateTodo s t"
| "exec s (DeleteTodo i) = deleteTodo s i"
| "exec s (ToggleComplete t) = toggleComplete s t"
| "exec s (FetchTodos c r) = snd (fetchTodos s c r)"

fun run :: "storage \<Rightarrow> call list \<Rightarrow> storage" where
  "run s [] = s"
| "run s (c # cs) = run (exec s c) cs"

text \<open>
  What the callers of the hook provide, and the hook itself does not check: a task is
  added under an id no stored task has (the screen uses \<^verbatim>\<open>Date.now()\<close>), and a
  list fetched from the server while online names each id once.
\<close>

fun freshIds :: "storage \<Rightarrow> call \<Rightarrow> bool" where
  "freshIds s (AddTodo t) = (id' t \<notin> set (map id' (parsedTodos s)))"
| "freshIds s (FetchTodos c (Inr serverTodos)) =
     (c \<noteq> Some True \<or> distinct (map id' serverTodos))"
| "freshIds s _ = True"

fun allFresh :: "storage \<Rightarrow> call list \<Rightarrow> bool" where
  "allFresh s [] = True"
| "allFresh s (c # cs) = (freshIds s c \<and> allFresh (exec s c) cs)"

section \<open>Sample data\<close>

definition taskA :: Todo where
  "taskA = \<lparr>id' = 1, title = ''A'', description = None, completed = False, isSynced = None\<rparr>"

definition serverA :: Todo where
  "serverA = \<lparr>id' = 1, title = ''A-server'', description = None, completed = True, isSynced = None\<rparr>"

definition serverB :: Todo where
  "serverB = \<lparr>id' = 2, title = ''B'', description = None, completed = False, isSynced = None\<rparr>"

definition sampleStorage :: storage where
  "sampleStorage = \<lparr>todos = Some [taskA], deletedTaskIds = Some [2]\<rparr>"

definition scenarioStorage :: storage where
  "scenarioStorage = \<lparr>todos = Some [taskA], deletedTaskIds = None\<rparr>"

text \<open>A store in which a deleted id is in use again: delete id 1, then add a task with id 1.\<close>

definition reusedIdStorage :: storage where
  "reusedIdStorage = run emptyStorage [DeleteTodo 1, AddTodo taskA]"

text \<open>
  Arguments of \<^verbatim>\<open>updateTodo\<close> for task 2: with a description, with the key
  \<^verbatim>\<open>description\<close> holding \<^verbatim>\<open>undefined\<close>, and without the key; and one for an id
  that no sample store holds.
\<close>

definition editB :: TodoObject where
  "editB = \<lparr>TodoObject.id' = 2, TodoObject.title = ''B2'',
            TodoObject.description = Value ''note'', TodoObject.completed = True,
            TodoObject.isSynced = Absent\<rparr>"

definition editUndefined :: TodoObject where
  "editUndefined = \<lparr>TodoObject.id' = 2, TodoObject.title = ''B3'',
                    TodoObject.description = Undefined, TodoObject.completed = True,
                    TodoObject.isSynced = Absent\<rparr>"

definition editAbsent :: TodoObject where
  "editAbsent = \<lparr>TodoObject.id' = 2, TodoObject.title = ''B4'',
                 TodoObject.description = Absent, TodoObject.completed = False,
                 TodoObject.isSynced = Value True\<rparr>"

definition editC :: TodoObject where
  "editC = \<lparr>TodoObject.id' = 3, TodoObject.title = ''C'',
            TodoObject.description = Absent, TodoObject.completed = False,
            TodoObject.isSynced = Absent\<rparr>"

text \<open>A store whose task 2 has a description.\<close>

definition notedB :: Todo where
  "notedB = \<lparr>id' = 2, title = ''B'', description = Some ''old'', completed = False,
             isSynced = Some True\<rparr>"

definition notedStorage :: storage where
  "notedStorage = \<lparr>todos = Some [taskA, notedB], deletedTaskIds = None\<rparr>"

text \<open>The store after the scenario's merge: the local task 1 and the synced task 2.\<close>

definition syncedStorage :: storage where
  "syncedStorage =
     \<lparr>todos = Some [taskA, serverB\<lparr>isSynced := Some True\<rparr>], deletedTaskIds = None\<rparr>"

text \<open>A session that uses every call, with fresh ids where a task is added or fetched.\<close>

definition sampleCalls :: "call list" where
  "sampleCalls =
     [AddTodo taskA, FetchTodos (Some True) (Inr [serverA, serverB]), DeleteTodo 2,
      UpdateTodo (asObject serverA), ToggleComplete (asObject taskA),
      FetchTodos (Some True) (Inl FetchRejected),
      AddTodo serverB, FetchTodos None (Inr [serverB, serverB])]"

section \<open>The merge as the specification words it\<close>

text \<open>
  The remote part of the merge in the spec's words (steps 4 to 6 of loadAndReconcile):
  the tasks of \<open>R\<close> whose id is neither in \<open>D\<close> nor the id of a task of \<open>L\<close>, each
  tagged as synced. It is compared with the source's pipeline in \<open>fetchTodos_online\<close>.
\<close>

definition unseenRemote :: "Todo list \<Rightarrow> int list \<Rightarrow> Todo list \<Rightarrow> Todo list" where
  "unseenRemote L D R =
     map (\<lambda>t. t\<lparr>isSynced := Some True\<rparr>)
       (filter (\<lambda>t. id' t \<notin> set D \<and> id' t \<notin> id' ` set L) R)"

section \<open>Basic facts\<close>

lemma parsedTodos_todos_update [simp]: "parsedTodos (s\<lparr>todos := Some ts\<rparr>) = ts"
  by (simp add: parsedTodos_def)

lemma parsedTodos_deleted_update [simp]:
  "parsedTodos (s\<lparr>deletedTaskIds := d\<rparr>) = parsedTodos s"
  by (simp add: parsedTodos_def)

lemma parsedDeleted_todos_update [simp]:
  "parsedDeletedTaskIds (s\<lparr>todos := t\<rparr>) = parsedDeletedTaskIds s"
  by (simp add: parsedDeletedTaskIds_def)

lemma parsedDeleted_deleted_update [simp]:
  "parsedDeletedTaskIds (s\<lparr>deletedTaskIds := Some ds\<rparr>) = ds"
  by (simp add: parsedDeletedTaskIds_def)

lemma list_ex_id_iff: "list_ex (\<lambda>l. id' l = i) ts \<longleftrightarrow> i \<in> id' ` set ts"
  by (auto simp: list_ex_iff)

lemma fetchTodos_online:
  "fetchTodos s (Some True) (Inr R) =
     (Inr (parsedTodos s @ unseenRemote (parsedTodos s) (parsedDeletedTaskIds s) R),
      s\<lparr>todos := Some (parsedTodos s @ unseenRemote (parsedTodos s) (parsedDeletedTaskIds s) R)\<rparr>)"
  by (simp add: fetchTodos_def unseenRemote_def Let_def filter_map comp_def list_ex_id_iff
      conj_commute)

lemma fetchTodos_offline:
  "c \<noteq> Some True \<Longrightarrow> fetchTodos s c r = (Inr (parsedTodos s), s)"
  by (simp add: fetchTodos_def)

lemma fetchTodos_rejected:
  "fetchTodos s (Some True) (Inl e) = (Inl e, s)"
  by (simp add: fetchTodos_def)

lemma fetchTodos_cases:
  assumes "fetchTodos s c r = (Inr res, s')"
  shows "(res = parsedTodos s \<and> s' = s) \<or>
         (\<exists>R. res = parsedTodos s @ unseenRemote (parsedTodos s) (parsedDeletedTaskIds s) R \<and>
               s' = s\<lparr>todos := Some res\<rparr>)"
proof (cases "c = Some True")
  case False
  with assms show ?thesis by (auto simp: fetchTodos_offline)
next
  case True
  show ?thesis
  proof (cases r)
    case (Inl e)
    with True assms show ?thesis by (simp add: fetchTodos_rejected)
  next
    case (Inr R)
    with True assms show ?thesis by (auto simp: fetchTodos_online)
  qed
qed

lemma unseenRemote_ids:
  "t \<in> set (unseenRemote L D R) \<Longrightarrow> id' t \<notin> set D \<and> id' t \<notin> id' ` set L"
  by (auto simp: unseenRemote_def)

lemma unseenRemote_again:
  "unseenRemote (L @ unseenRemote L D R) D R = []"
proof -
  have "\<not> (id' t \<notin> set D \<and> id' t \<notin> id' ` set (L @ unseenRemote L D R))"
    if t: "t \<in> set R" for t
  proof
    assume a: "id' t \<notin> set D \<and> id' t \<notin> id' ` set (L @ unseenRemote L D R)"
    then have "id' t \<notin> id' ` set L" by auto
    with t a have "t\<lparr>isSynced := Some True\<rparr> \<in> set (unseenRemote L D R)"
      by (auto simp: unseenRemote_def)
    then have "id' (t\<lparr>isSynced := Some True\<rparr>) \<in> id' ` set (unseenRemote L D R)"
      by (rule imageI)
    with a show False by (simp add: image_Un)
  qed
  then have "filter (\<lambda>t. id' t \<notin> set D \<and> id' t \<notin> id' ` set (L @ unseenRemote L D R)) R = []"
    by (simp add: filter_empty_conv)
  then show ?thesis
    unfolding unseenRemote_def [of "L @ unseenRemote L D R"] by simp
qed

lemma reusedIdStorage_eq:
  "reusedIdStorage = \<lparr>todos = Some [taskA\<lparr>isSynced := Some False\<rparr>], deletedTaskIds = Some [1]\<rparr>"
  by (simp add: reusedIdStorage_def emptyStorage_def addTodo_def deleteTodo_def
      parsedTodos_def parsedDeletedTaskIds_def)

lemma ids_addTodo:
  "map id' (parsedTodos (addTodo s t)) = id' t # map id' (parsedTodos s)"
  by (simp add: addTodo_def)

lemma stringified_asObject: "stringified (asObject t) = t"
  by (simp add: stringified_def asObject_def split: option.splits)

lemma stringified_spread:
  "stringified ((spread t u)\<lparr>TodoObject.isSynced := Value False\<rparr>) =
     \<lparr>id' = TodoObject.id' u, title = TodoObject.title u,
      description = (case TodoObject.description u of
                       Absent \<Rightarrow> description t
                     | Undefined \<Rightarrow> None
                     | Value d \<Rightarrow> Some d),
      completed = TodoObject.completed u, isSynced = Some False\<rparr>"
  by (simp add: stringified_def spread_def asObject_def split: optional.splits option.splits)

lemma ids_updateTodo:
  "map id' (parsedTodos (updateTodo s u)) = map id' (parsedTodos s)"
  by (simp add: updateTodo_def stringified_spread)

lemma ids_toggleComplete:
  "map id' (parsedTodos (toggleComplete s t)) = map id' (parsedTodos s)"
  by (simp add: toggleComplete_def ids_updateTodo)

lemma parsedTodos_deleteTodo:
  "parsedTodos (deleteTodo s i) = filter (\<lambda>t. id' t \<noteq> i) (parsedTodos s)"
  by (simp add: deleteTodo_def Let_def)

lemma parsedDeleted_deleteTodo:
  "parsedDeletedTaskIds (deleteTodo s i) = parsedDeletedTaskIds s @ [i]"
  by (simp add: deleteTodo_def Let_def)

lemma ids_unseenRemote:
  "map id' (unseenRemote L D R) =
   filter (\<lambda>i. i \<notin> set D \<and> i \<notin> id' ` set L) (map id' R)"
  by (simp add: unseenRemote_def filter_map comp_def)

lemma distinct_merge:
  assumes "distinct (map id' L)" and "distinct (map id' R)"
  shows "distinct (map id' (L @ unseenRemote L D R))"
  using assms by (auto simp: ids_unseenRemote)

lemma distinct_exec:
  assumes "distinct (map id' (parsedTodos s))" and "freshIds s c"
  shows "distinct (map id' (parsedTodos (exec s c)))"
proof (cases c)
  case (AddTodo t)
  with assms show ?thesis by (simp add: ids_addTodo)
next
  case (UpdateTodo u)
  with assms show ?thesis by (simp add: ids_updateTodo)
next
  case (DeleteTodo i)
  with assms show ?thesis by (simp add: parsedTodos_deleteTodo distinct_map_filter)
next
  case (ToggleComplete t)
  with assms show ?thesis by (simp add: ids_toggleComplete)
next
  case (FetchTodos conn r)
  show ?thesis
  proof (cases "conn = Some True")
    case False
    with FetchTodos assms show ?thesis by (simp add: fetchTodos_offline)
  next
    case True
    show ?thesis
    proof (cases r)
      case (Inl e)
      with True FetchTodos assms show ?thesis by (simp add: fetchTodos_rejected)
    next
      case (Inr R)
      with True FetchTodos assms show ?thesis
        by (simp add: fetchTodos_online distinct_merge del: map_append)
    qed
  qed
qed

lemma distinct_run:
  "distinct (map id' (parsedTodos s)) \<Longrightarrow> allFresh s cs \<Longrightarrow>
   distinct (map id' (parsedTodos (run s cs)))"
proof (induction cs arbitrary: s)
  case Nil
  then show ?case by simp
next
  case (Cons c cs)
  then show ?case by (simp add: distinct_exec)
qed

lemma run_deletes:
  "parsedDeletedTaskIds (run s (map DeleteTodo is)) = parsedDeletedTaskIds s @ is"
  by (induction "is" arbitrary: s) (simp_all add: parsedDeleted_deleteTodo)

lemma sampleCalls_fresh: "allFresh emptyStorage sampleCalls"
  by (simp add: sampleCalls_def emptyStorage_def addTodo_def updateTodo_def deleteTodo_def
      toggleComplete_def fetchTodos_def Let_def stringified_spread asObject_def parsedTodos_def
      parsedDeletedTaskIds_def
      taskA_def serverA_def serverB_def)

section \<open>Loading and reconciling\<close>

text \<open>
  C1. Online with a successful fetch, \<^verbatim>\<open>fetchTodos\<close> returns the local tasks, in their
  order, followed by exactly the remote tasks whose id is neither a deleted id nor the id
  of a local task, each with \<open>isSynced = true\<close>, and writes that list to \<^verbatim>\<open>'todos'\<close>.
  Here \<open>L\<close> is \<open>parsedTodos s\<close> and \<open>D\<close> is \<open>parsedDeletedTaskIds s\<close>.
\<close>

theorem C1_fetchTodos_online_merge:
  "fetchTodos s (Some True) (Inr R) =
     (Inr (parsedTodos s @
           map (\<lambda>t. t\<lparr>isSynced := Some True\<rparr>)
             (filter (\<lambda>t. id' t \<notin> set (parsedDeletedTaskIds s) \<and>
                           id' t \<notin> id' ` set (parsedTodos s)) R)),
      s\<lparr>todos := Some (parsedTodos s @
           map (\<lambda>t. t\<lparr>isSynced := Some True\<rparr>)
             (filter (\<lambda>t. id' t \<notin> set (parsedDeletedTaskIds s) \<and>
                           id' t \<notin> id' ` set (parsedTodos s)) R))\<rparr>)"
  using fetchTodos_online [of s R] by (simp add: unseenRemote_def)

text \<open>
  The scenario of the specification: local task 1, nothing deleted, the server sends
  tasks 1 and 2. Task 1 stays as it is locally, task 2 is appended as synced.
\<close>

theorem C1_scenario:
  "fetchTodos scenarioStorage (Some True) (Inr [serverA, serverB]) =
     (Inr [taskA, serverB\<lparr>isSynced := Some True\<rparr>],
      scenarioStorage\<lparr>todos := Some [taskA, serverB\<lparr>isSynced := Some True\<rparr>]\<rparr>)"
  using C1_fetchTodos_online_merge [of scenarioStorage "[serverA, serverB]"]
  by (simp add: scenarioStorage_def parsedTodos_def parsedDeletedTaskIds_def
      taskA_def serverA_def serverB_def)

text \<open>
  C2 as the specification states it (no task of the result has a deleted id, also when a
  local task has one) fails: after deleting id 1 and adding a task with id 1, an online
  \<^verbatim>\<open>fetchTodos\<close> returns and stores that task, whose id is in the deleted ids.
\<close>

theorem C2_counterexample:
  "fst (fetchTodos reusedIdStorage (Some True) (Inr [])) = Inr [taskA\<lparr>isSynced := Some False\<rparr>]
   \<and> todos (snd (fetchTodos reusedIdStorage (Some True) (Inr []))) =
       Some [taskA\<lparr>isSynced := Some False\<rparr>]
   \<and> id' (taskA\<lparr>isSynced := Some False\<rparr>) \<in> set (parsedDeletedTaskIds reusedIdStorage)"
  by (simp add: reusedIdStorage_eq fetchTodos_def Let_def parsedTodos_def
      parsedDeletedTaskIds_def taskA_def)

text \<open>
  C2, amended. The deleted ids filter the remote tasks only. Whenever \<^verbatim>\<open>fetchTodos\<close>
  returns a list, that list is what \<^verbatim>\<open>'todos'\<close> holds afterwards, every task of it
  whose id is a deleted id is one of the local tasks, and so the list has no deleted id
  when no local task had one.
\<close>

theorem C2_deleted_ids_only_from_local:
  assumes "fetchTodos s c r = (Inr res, s')"
  shows "parsedTodos s' = res \<and>
         (\<forall>t \<in> set res. id' t \<in> set (parsedDeletedTaskIds s) \<longrightarrow> t \<in> set (parsedTodos s)) \<and>
         ((\<forall>t \<in> set (parsedTodos s). id' t \<notin> set (parsedDeletedTaskIds s)) \<longrightarrow>
          (\<forall>t \<in> set res. id' t \<notin> set (parsedDeletedTaskIds s)))"
  using fetchTodos_cases [OF assms] by (auto dest: unseenRemote_ids)

theorem C2_witness:
  "parsedTodos (snd (fetchTodos sampleStorage (Some True) (Inr [serverA, serverB]))) = [taskA]
   \<and> id' taskA \<notin> set (parsedDeletedTaskIds sampleStorage)"
proof -
  have run: "fetchTodos sampleStorage (Some True) (Inr [serverA, serverB]) =
             (Inr [taskA], sampleStorage\<lparr>todos := Some [taskA]\<rparr>)"
    by (simp add: fetchTodos_def Let_def sampleStorage_def parsedTodos_def
        parsedDeletedTaskIds_def taskA_def serverA_def serverB_def)
  have loc: "\<forall>t \<in> set (parsedTodos sampleStorage).
               id' t \<notin> set (parsedDeletedTaskIds sampleStorage)"
    by (simp add: sampleStorage_def parsedTodos_def parsedDeletedTaskIds_def taskA_def)
  from C2_deleted_ids_only_from_local [OF run] loc show ?thesis
    by (simp add: run)
qed

text \<open>
  C3 as the specification states it (a failed fetch while online gives the local tasks)
  fails: the rejection of \<^verbatim>\<open>fetch\<close> is the result of \<^verbatim>\<open>fetchTodos\<close>.
\<close>

theorem C3_counterexample:
  "fst (fetchTodos sampleStorage (Some True) (Inl FetchRejected)) = Inl FetchRejected
   \<and> fst (fetchTodos sampleStorage (Some True) (Inl FetchRejected)) \<noteq>
       Inr (parsedTodos sampleStorage)"
  by (simp add: fetchTodos_def)

text \<open>
  C3, amended. Online, when \<^verbatim>\<open>fetch\<close> or \<^verbatim>\<open>response.json()\<close> rejects,
  \<^verbatim>\<open>fetchTodos\<close> rejects with that error and leaves the store as it was.
\<close>

theorem C3_fetch_failure_rejects:
  "fetchTodos s (Some True) (Inl e) = (Inl e, s)"
  by (simp add: fetchTodos_def)

text \<open>
  C4. A second online \<^verbatim>\<open>fetchTodos\<close> against the same remote list, run on the store the
  first one left, returns the same list and leaves the same store.
\<close>

theorem C4_fetchTodos_idempotent:
  "fetchTodos (snd (fetchTodos s (Some True) (Inr R))) (Some True) (Inr R) =
   fetchTodos s (Some True) (Inr R)"
  by (simp add: fetchTodos_online unseenRemote_again)

text \<open>
  C5. Offline (\<^verbatim>\<open>isConnected\<close> is \<^verbatim>\<open>false\<close> or \<^verbatim>\<open>null\<close>), \<^verbatim>\<open>fetchTodos\<close> returns
  the local tasks as they are stored and the store, both keys, is unchanged, whatever the
  server would have answered.
\<close>

theorem C5_offline_no_write:
  "fetchTodos s (Some False) r = (Inr (parsedTodos s), s) \<and>
   fetchTodos s None r = (Inr (parsedTodos s), s)"
  by (simp add: fetchTodos_offline)

section \<open>Mutations\<close>

text \<open>
  C6 as the specification states it (ids are unique in the stored list after any
  sequence of calls, also when \<^verbatim>\<open>addTodo\<close> gets an id already in the list) fails:
  adding the same task twice to the empty store stores two tasks with id 1.
\<close>

theorem C6_counterexample:
  "\<not> distinct (map id' (parsedTodos (run emptyStorage [AddTodo taskA, AddTodo taskA])))"
  by (simp add: addTodo_def)

text \<open>
  C6, amended. Starting from the empty store, after any sequence of \<^verbatim>\<open>addTodo\<close>,
  \<^verbatim>\<open>updateTodo\<close>, \<^verbatim>\<open>deleteTodo\<close>, \<^verbatim>\<open>toggleComplete\<close> and \<^verbatim>\<open>fetchTodos\<close> in
  which every \<^verbatim>\<open>addTodo\<close> gets an id that no stored task has at that moment and every
  list fetched while online names each id once, no two stored tasks have the same id.
\<close>

theorem C6_unique_ids_when_fresh:
  "allFresh emptyStorage cs \<Longrightarrow> distinct (map id' (parsedTodos (run emptyStorage cs)))"
  by (rule distinct_run) (simp_all add: emptyStorage_def parsedTodos_def)

theorem C6_witness:
  "allFresh emptyStorage sampleCalls \<and>
   distinct (map id' (parsedTodos (run emptyStorage sampleCalls)))"
  using C6_unique_ids_when_fresh [of sampleCalls] sampleCalls_fresh by simp

text \<open>
  C7. \<^verbatim>\<open>deleteTodo\<close> writes to \<^verbatim>\<open>'todos'\<close> the stored list without the entries of
  the given id (the same list when no entry has it) and to \<^verbatim>\<open>'deletedTaskIds'\<close> the
  deleted ids with the id appended; an online \<^verbatim>\<open>fetchTodos\<close> afterwards, against any
  remote list, returns and stores a list with no task of that id.
\<close>

theorem C7_deleteTodo:
  "todos (deleteTodo s i) = Some (filter (\<lambda>t. id' t \<noteq> i) (parsedTodos s))
   \<and> (i \<notin> id' ` set (parsedTodos s) \<longrightarrow> parsedTodos (deleteTodo s i) = parsedTodos s)
   \<and> deletedTaskIds (deleteTodo s i) = Some (parsedDeletedTaskIds s @ [i])
   \<and> (\<exists>res. fetchTodos (deleteTodo s i) (Some True) (Inr R) =
               (Inr res, (deleteTodo s i)\<lparr>todos := Some res\<rparr>)
            \<and> i \<notin> id' ` set res)"
proof -
  have 1: "todos (deleteTodo s i) = Some (filter (\<lambda>t. id' t \<noteq> i) (parsedTodos s))"
    by (simp add: deleteTodo_def Let_def)
  have 2: "parsedTodos (deleteTodo s i) = parsedTodos s" if "i \<notin> id' ` set (parsedTodos s)"
  proof -
    from that have "\<forall>t \<in> set (parsedTodos s). id' t \<noteq> i" by auto
    then show ?thesis by (simp add: parsedTodos_deleteTodo)
  qed
  have 3: "deletedTaskIds (deleteTodo s i) = Some (parsedDeletedTaskIds s @ [i])"
    by (simp add: deleteTodo_def Let_def)
  let ?res = "parsedTodos (deleteTodo s i) @
              unseenRemote (parsedTodos (deleteTodo s i)) (parsedDeletedTaskIds (deleteTodo s i)) R"
  have 4: "fetchTodos (deleteTodo s i) (Some True) (Inr R) =
           (Inr ?res, (deleteTodo s i)\<lparr>todos := Some ?res\<rparr>)"
    by (rule fetchTodos_online)
  have "i \<notin> id' ` set (parsedTodos (deleteTodo s i))"
    by (auto simp: parsedTodos_deleteTodo)
  moreover have "i \<notin> id' ` set (unseenRemote L (parsedDeletedTaskIds (deleteTodo s i)) R)" for L
    by (auto simp: parsedDeleted_deleteTodo dest: unseenRemote_ids)
  ultimately have 5: "i \<notin> id' ` set ?res" by (simp add: image_Un)
  from 1 2 3 4 5 show ?thesis by blast
qed

theorem C7_witness:
  "3 \<notin> id' ` set (parsedTodos syncedStorage)
   \<and> parsedTodos (deleteTodo syncedStorage 3) = [taskA, serverB\<lparr>isSynced := Some True\<rparr>]
   \<and> todos (deleteTodo syncedStorage 2) = Some [taskA]
   \<and> deletedTaskIds (deleteTodo syncedStorage 2) = Some [2]
   \<and> fst (fetchTodos (deleteTodo syncedStorage 2) (Some True) (Inr [serverA, serverB])) =
       Inr [taskA]"
proof -
  have absent: "3 \<notin> id' ` set (parsedTodos syncedStorage)"
    by (simp add: syncedStorage_def parsedTodos_def taskA_def serverB_def)
  have kept: "parsedTodos (deleteTodo syncedStorage 3) = parsedTodos syncedStorage"
    using C7_deleteTodo [of syncedStorage 3 "[]"] absent by blast
  have fetched: "fst (fetchTodos (deleteTodo syncedStorage 2) (Some True) (Inr [serverA, serverB])) =
       Inr [taskA]"
    by (simp add: fetchTodos_def deleteTodo_def Let_def syncedStorage_def parsedTodos_def
        parsedDeletedTaskIds_def taskA_def serverA_def serverB_def)
  from C7_deleteTodo [of syncedStorage 2 "[serverA, serverB]"] absent kept fetched
  show ?thesis
    by (simp add: syncedStorage_def parsedTodos_def parsedDeletedTaskIds_def
        taskA_def serverB_def)
qed

text \<open>
  C8. \<^verbatim>\<open>updateTodo\<close> writes to \<^verbatim>\<open>'todos'\<close> the stored list in which every entry of
  the given task's id is replaced by the field-merged record with \<open>isSynced = false\<close>:
  id, title and completed of the given task, and its description, where a given task
  without the key \<^verbatim>\<open>description\<close> keeps the entry's description and one whose key
  holds \<^verbatim>\<open>undefined\<close> leaves the stored entry without a description. Every other
  entry is unchanged; the list is the same when no entry has that id; the deleted ids
  are untouched. \<^verbatim>\<open>toggleComplete\<close> is \<^verbatim>\<open>updateTodo\<close> of the task with \<open>completed\<close>
  inverted.
\<close>

theorem C8_updateTodo:
  "todos (updateTodo s u) =
     Some (map (\<lambda>t. if id' t = TodoObject.id' u
                    then \<lparr>id' = TodoObject.id' u, title = TodoObject.title u,
                          description = (case TodoObject.description u of
                                           Absent \<Rightarrow> description t
                                         | Undefined \<Rightarrow> None
                                         | Value d \<Rightarrow> Some d),
                          completed = TodoObject.completed u, isSynced = Some False\<rparr>
                    else t) (parsedTodos s))
   \<and> (TodoObject.id' u \<notin> id' ` set (parsedTodos s) \<longrightarrow>
        parsedTodos (updateTodo s u) = parsedTodos s)
   \<and> deletedTaskIds (updateTodo s u) = deletedTaskIds s
   \<and> toggleComplete s u =
       updateTodo s (u\<lparr>TodoObject.completed := \<not> TodoObject.completed u\<rparr>)"
proof -
  have 1: "todos (updateTodo s u) =
     Some (map (\<lambda>t. if id' t = TodoObject.id' u
                    then \<lparr>id' = TodoObject.id' u, title = TodoObject.title u,
                          description = (case TodoObject.description u of
                                           Absent \<Rightarrow> description t
                                         | Undefined \<Rightarrow> None
                                         | Value d \<Rightarrow> Some d),
                          completed = TodoObject.completed u, isSynced = Some False\<rparr>
                    else t) (parsedTodos s))"
    by (simp add: updateTodo_def stringified_spread)
  have 2: "parsedTodos (updateTodo s u) = parsedTodos s"
    if "TodoObject.id' u \<notin> id' ` set (parsedTodos s)"
  proof -
    from that have "\<forall>t \<in> set (parsedTodos s). id' t \<noteq> TodoObject.id' u" by (metis imageI)
    then have "map (\<lambda>todo. if id' todo = TodoObject.id' u
                        then stringified
                               ((spread todo u)\<lparr>TodoObject.isSynced := Value False\<rparr>)
                        else todo) (parsedTodos s) = parsedTodos s"
      by (simp add: map_idI)
    then show ?thesis by (simp add: updateTodo_def)
  qed
  have 3: "deletedTaskIds (updateTodo s u) = deletedTaskIds s"
    by (simp add: updateTodo_def)
  have 4: "toggleComplete s u =
       updateTodo s (u\<lparr>TodoObject.completed := \<not> TodoObject.completed u\<rparr>)"
    by (simp add: toggleComplete_def)
  from 1 2 3 4 show ?thesis by blast
qed

theorem C8_witness:
  "todos (updateTodo notedStorage editB) =
     Some [taskA, \<lparr>id' = 2, title = ''B2'', description = Some ''note'', completed = True,
                   isSynced = Some False\<rparr>]
   \<and> todos (updateTodo notedStorage editUndefined) =
     Some [taskA, \<lparr>id' = 2, title = ''B3'', description = None, completed = True,
                   isSynced = Some False\<rparr>]
   \<and> todos (updateTodo notedStorage editAbsent) =
     Some [taskA, \<lparr>id' = 2, title = ''B4'', description = Some ''old'', completed = False,
                   isSynced = Some False\<rparr>]
   \<and> TodoObject.id' editC \<notin> id' ` set (parsedTodos notedStorage)
   \<and> parsedTodos (updateTodo notedStorage editC) = [taskA, notedB]"
proof -
  have L: "parsedTodos notedStorage = [taskA, notedB]"
    by (simp add: notedStorage_def parsedTodos_def)
  have absent: "TodoObject.id' editC \<notin> id' ` set (parsedTodos notedStorage)"
    by (simp add: L taskA_def notedB_def editC_def)
  have kept: "parsedTodos (updateTodo notedStorage editC) = parsedTodos notedStorage"
    using C8_updateTodo [of notedStorage editC] absent by blast
  have valued: "todos (updateTodo notedStorage editB) =
     Some [taskA, \<lparr>id' = 2, title = ''B2'', description = Some ''note'', completed = True,
                   isSynced = Some False\<rparr>]"
    using C8_updateTodo [of notedStorage editB]
    by (simp add: L taskA_def notedB_def editB_def)
  have undefined: "todos (updateTodo notedStorage editUndefined) =
     Some [taskA, \<lparr>id' = 2, title = ''B3'', description = None, completed = True,
                   isSynced = Some False\<rparr>]"
    using C8_updateTodo [of notedStorage editUndefined]
    by (simp add: L taskA_def notedB_def editUndefined_def)
  have nokey: "todos (updateTodo notedStorage editAbsent) =
     Some [taskA, \<lparr>id' = 2, title = ''B4'', description = Some ''old'', completed = False,
                   isSynced = Some False\<rparr>]"
    using C8_updateTodo [of notedStorage editAbsent]
    by (simp add: L taskA_def notedB_def editAbsent_def)
  from valued undefined nokey absent kept show ?thesis by (simp add: L)
qed

text \<open>
  C9 as the specification states it (after \<^verbatim>\<open>addTodo\<close> of any task to any list, an
  offline load holds the task exactly once) fails: adding the same task twice, the
  offline load returns it twice.
\<close>

theorem C9_counterexample:
  "fst (fetchTodos (addTodo (addTodo emptyStorage taskA) taskA) (Some False) (Inr [])) =
     Inr [taskA\<lparr>isSynced := Some False\<rparr>, taskA\<lparr>isSynced := Some False\<rparr>]
   \<and> count_list [taskA\<lparr>isSynced := Some False\<rparr>, taskA\<lparr>isSynced := Some False\<rparr>]
       (taskA\<lparr>isSynced := Some False\<rparr>) = 2"
  by (simp add: fetchTodos_def addTodo_def emptyStorage_def parsedTodos_def)

text \<open>
  C9, amended. \<^verbatim>\<open>addTodo\<close> writes to \<^verbatim>\<open>'todos'\<close> the task with \<open>isSynced = false\<close>
  in front of the stored list, and an offline \<^verbatim>\<open>fetchTodos\<close> afterwards returns that
  list. The added task occurs in it exactly once when the stored list did not hold it
  already; when no stored task had its id, it is the only entry of that id.
\<close>

theorem C9_addTodo:
  assumes "c \<noteq> Some True"
  shows "todos (addTodo s t) = Some (t\<lparr>isSynced := Some False\<rparr> # parsedTodos s)
   \<and> fetchTodos (addTodo s t) c r =
       (Inr (t\<lparr>isSynced := Some False\<rparr> # parsedTodos s), addTodo s t)
   \<and> (t\<lparr>isSynced := Some False\<rparr> \<notin> set (parsedTodos s) \<longrightarrow>
        count_list (t\<lparr>isSynced := Some False\<rparr> # parsedTodos s) (t\<lparr>isSynced := Some False\<rparr>) = 1)
   \<and> (id' t \<notin> id' ` set (parsedTodos s) \<longrightarrow>
        filter (\<lambda>x. id' x = id' t) (t\<lparr>isSynced := Some False\<rparr> # parsedTodos s) =
          [t\<lparr>isSynced := Some False\<rparr>])"
proof -
  have 1: "todos (addTodo s t) = Some (t\<lparr>isSynced := Some False\<rparr> # parsedTodos s)"
    by (simp add: addTodo_def)
  have 2: "fetchTodos (addTodo s t) c r =
       (Inr (t\<lparr>isSynced := Some False\<rparr> # parsedTodos s), addTodo s t)"
    using assms by (simp add: fetchTodos_offline) (simp add: addTodo_def)
  have 3: "count_list (t\<lparr>isSynced := Some False\<rparr> # parsedTodos s) (t\<lparr>isSynced := Some False\<rparr>) = 1"
    if "t\<lparr>isSynced := Some False\<rparr> \<notin> set (parsedTodos s)"
    using that by (simp add: count_list_0_iff)
  have 4: "filter (\<lambda>x. id' x = id' t) (t\<lparr>isSynced := Some False\<rparr> # parsedTodos s) =
          [t\<lparr>isSynced := Some False\<rparr>]" if "id' t \<notin> id' ` set (parsedTodos s)"
  proof -
    from that have "\<forall>x \<in> set (parsedTodos s). id' x \<noteq> id' t" by (metis imageI)
    then show ?thesis by (simp add: filter_empty_conv)
  qed
  from 1 2 3 4 show ?thesis by blast
qed

theorem C9_witness:
  "fetchTodos (addTodo scenarioStorage serverB) (Some False) (Inr [serverA]) =
     (Inr [serverB\<lparr>isSynced := Some False\<rparr>, taskA], addTodo scenarioStorage serverB)
   \<and> count_list [serverB\<lparr>isSynced := Some False\<rparr>, taskA] (serverB\<lparr>isSynced := Some False\<rparr>) = 1
   \<and> filter (\<lambda>x. id' x = 2) [serverB\<lparr>isSynced := Some False\<rparr>, taskA] =
       [serverB\<lparr>isSynced := Some False\<rparr>]"
proof -
  have off: "Some False \<noteq> Some True" by simp
  have L: "parsedTodos scenarioStorage = [taskA]"
    by (simp add: scenarioStorage_def parsedTodos_def)
  have new: "serverB\<lparr>isSynced := Some False\<rparr> \<notin> set (parsedTodos scenarioStorage)"
    by (simp add: L taskA_def serverB_def)
  have fresh: "id' serverB \<notin> id' ` set (parsedTodos scenarioStorage)"
    by (simp add: L taskA_def serverB_def)
  have two: "id' serverB = 2" by (simp add: serverB_def)
  from C9_addTodo [OF off, of scenarioStorage serverB "Inr [serverA]"] new fresh
  show ?thesis by (simp add: L two)
qed

text \<open>
  C10. \<^verbatim>\<open>deleteTodo\<close> appends the id to the deleted ids whatever the store holds: the
  list written to \<^verbatim>\<open>'deletedTaskIds'\<close> is the old one with the id at its end, one
  element longer, and a series of deletions appends its ids in order, repeated ids and
  ids of no stored task included.
\<close>

theorem C10_deleteTodo_appends_always:
  "deletedTaskIds (deleteTodo s i) = Some (parsedDeletedTaskIds s @ [i])
   \<and> length (parsedDeletedTaskIds (deleteTodo s i)) = Suc (length (parsedDeletedTaskIds s))
   \<and> parsedDeletedTaskIds (run s (map DeleteTodo is)) = parsedDeletedTaskIds s @ is"
  by (simp add: run_deletes parsedDeleted_deleteTodo) (simp add: deleteTodo_def Let_def)

text \<open>Deleting id 7 twice from the empty store leaves the deleted ids \<open>[7, 7]\<close>.\<close>

theorem C10_duplicates:
  "parsedDeletedTaskIds (run emptyStorage [DeleteTodo 7, DeleteTodo 7]) = [7, 7]
   \<and> parsedTodos (run emptyStorage [DeleteTodo 7, DeleteTodo 7]) = []"
  using C10_deleteTodo_appends_always [of emptyStorage 7 "[7, 7]"]
  by (simp add: emptyStorage_def deleteTodo_def Let_def parsedDeletedTaskIds_def parsedTodos_def)


end
